theory Spec2Isabelle
  imports Main "HOL-Library.Word"
begin

section \<open>Python values shared by the two tools\<close>

text \<open>
  A Python \<open>str\<close> is modelled as a \<open>string\<close>: the list of its code points, for code
  points below 256. Bytes read from a file are \<open>8 word\<close>s.

  Exceptions are values. \<open>raised\<close> is what a call into a library or into the operating
  system may raise, with the text \<open>str(exc)\<close> gives: either an instance of \<open>Exception\<close>
  or an exception outside that class (\<open>KeyboardInterrupt\<close>, say), which
  \<open>except Exception\<close> does not catch.
\<close>

type_synonym bytes = "8 word list"

datatype raised = Exception string | NonException string

datatype exn = UnicodeEncodeError | IndexError | AttributeError | Raised raised

text \<open>
  How a run of a tool ends: the script runs to its end, \<open>sys.exit(message)\<close> is called
  with a string, \<open>parser.error(message)\<close> is called, or an exception is not caught.
\<close>

datatype outcome = Returned | SysExit string | ArgparseError string | Uncaught exn

text \<open>
  The exit status: \<open>sys.exit\<close> with a string prints it on the error stream and exits
  with 1, \<open>parser.error\<close> exits with 2, an uncaught exception prints a trace and
  exits with 1.
\<close>

fun exit_status :: "outcome \<Rightarrow> nat" where
  "exit_status Returned = 0"
| "exit_status (SysExit m) = 1"
| "exit_status (ArgparseError m) = 2"
| "exit_status (Uncaught e) = 1"

text \<open>
  \<open>str.isspace\<close> on one character, for the code points below 256, and \<open>str.strip()\<close>
  with no argument, which removes the leading and the trailing run of such characters.
\<close>

definition isspace :: "char \<Rightarrow> bool" where
  "isspace c = (of_char c \<in> set [9, 10, 11, 12, 13, 28, 29, 30, 31, 32, 133, 160 :: nat])"

definition strip :: "string \<Rightarrow> string" where
  "strip s = rev (dropWhile isspace (rev (dropWhile isspace s)))"

text \<open>\<open>sep.join(xs)\<close>.\<close>

fun join :: "string \<Rightarrow> string list \<Rightarrow> string" where
  "join sep [] = []"
| "join sep [x] = x"
| "join sep (x # y # ys) = x @ sep @ join sep (y # ys)"

section \<open>The prompt query tool (query-ai.py)\<close>

text \<open>
  The keyword arguments of \<open>client.chat.completions.create\<close> are an association list
  from the keyword to its value; a message is the dictionary the source writes, as an
  association list too.
\<close>

datatype arg = Messages "(string \<times> string) list list" | Str string

type_synonym kwargs = "(string \<times> arg) list"

text \<open>
  A chat completion, as far as the source reads it: for every element of \<open>choices\<close> the
  value of \<open>message.content\<close>, which the API may leave \<open>None\<close>.
\<close>

type_synonym chat_completion = "string option list"

text \<open>
  What the tool does not decide: whether \<open>OpenAI()\<close> raises (it does without a
  credential in the environment) and what the API answers to a request.
\<close>

record openai =
  client_init :: "raised option"
  create :: "kwargs \<Rightarrow> raised + chat_completion"

text \<open>
  \<open>query_openai\<close> returns the response text or the exception that leaves the function,
  together with the requests issued, in order.
\<close>

definition query_openai :: "string \<Rightarrow> string \<Rightarrow> int \<Rightarrow> openai \<Rightarrow> (exn + string) \<times> kwargs list" where
  "query_openai prompt model_name max_toks api =
     (case client_init api of
        Some r \<Rightarrow> (Inl (Raised r), [])
      | None \<Rightarrow>
          (let request = [(''messages'', Messages [[(''role'', ''user''), (''content'', prompt)]]),
                          (''model'', Str model_name)]
           in case create api request of
                Inl r \<Rightarrow> (Inl (Raised r), [request])
              | Inr chat \<Rightarrow>
                  (case chat of
                     [] \<Rightarrow> (Inl IndexError, [request])
                   | first # _ \<Rightarrow>
                       (case first of
                          None \<Rightarrow> (Inl AttributeError, [request])
                        | Some text \<Rightarrow> (Inr (strip text), [request])))))"

text \<open>The parsed command line of the tool: \<open>--model\<close> and \<open>--max_tokens\<close>.\<close>

record query_args =
  model :: string
  max_tokens :: int

text \<open>
  The script body after \<open>parser.parse_args()\<close>: the outcome, the text written on
  standard output and the requests issued.
\<close>

definition query_main :: "query_args \<Rightarrow> string \<Rightarrow> openai \<Rightarrow> outcome \<times> string \<times> kwargs list" where
  "query_main args stdin api =
     (let user_prompt = strip stdin
      in case query_openai user_prompt (model args) (max_tokens args) api of
           (Inl e, requests) \<Rightarrow> (Uncaught e, [], requests)
         | (Inr response, requests) \<Rightarrow> (Returned, response @ [CHR 0x0A], requests))"

section \<open>Library functions the mail sender calls\<close>

text \<open>
  \<open>str(Header(s, 'utf-8'))\<close>: a header built from one string gives that string back,
  and a header built from \<open>None\<close> is empty.
\<close>

fun header_str :: "string option \<Rightarrow> string" where
  "header_str None = []"
| "header_str (Some s) = s"

definition is_ascii :: "string \<Rightarrow> bool" where
  "is_ascii s = list_all (\<lambda>c. of_char c < (128 :: nat)) s"

text \<open>
  The characters of \<open>email.utils.specialsre\<close>, and \<open>escapesre.sub\<close>, which puts a
  backslash before every backslash and double quote.
\<close>

definition specials :: string where
  "specials = ''[]()<>@,:;.'' @ [CHR 0x5C, CHR 0x22]"

definition escape :: "string \<Rightarrow> string" where
  "escape name = concat (map (\<lambda>c. if c = CHR 0x5C \<or> c = CHR 0x22 then [CHR 0x5C, c] else [c]) name)"

text \<open>
  \<open>email.utils.formataddr((name, address))\<close>. A non-ASCII address raises; a non-ASCII
  name is encoded by the charset's \<open>header_encode\<close>, which is taken as a parameter.
\<close>

definition formataddr :: "(string \<Rightarrow> string) \<Rightarrow> string \<times> string \<Rightarrow> exn + string" where
  "formataddr header_encode pair =
     (case pair of (name, address) \<Rightarrow>
        if \<not> is_ascii address then Inl UnicodeEncodeError
        else if name \<noteq> [] then
          (if \<not> is_ascii name then Inr (header_encode name @ '' <'' @ address @ ''>'')
           else
             (let quotes = (if list_ex (\<lambda>c. c \<in> set specials) name then [CHR 0x22] else [])
              in Inr (quotes @ escape name @ quotes @ '' <'' @ address @ ''>'')))
        else Inr address)"

text \<open>
  Base64 as \<open>binascii.b2a_base64\<close> writes it: three bytes give four characters of the
  alphabet, a last group of one or two bytes is padded with \<open>=\<close>, and the line ends with
  a newline.
\<close>

definition b64_alphabet :: string where
  "b64_alphabet = ''ABCDEFGHIJKLMNOPQRSTUVWXYZabcdefghijklmnopqrstuvwxyz0123456789+/''"

definition b64_char :: "nat \<Rightarrow> char" where
  "b64_char n = b64_alphabet ! n"

fun b64_groups :: "bytes \<Rightarrow> string" where
  "b64_groups [] = []"
| "b64_groups [a] =
     [b64_char (unat a div 4), b64_char ((unat a mod 4) * 16), CHR ''='', CHR ''='']"
| "b64_groups [a, b] =
     [b64_char (unat a div 4), b64_char ((unat a mod 4) * 16 + unat b div 16),
      b64_char ((unat b mod 16) * 4), CHR ''='']"
| "b64_groups (a # b # c # rest) =
     [b64_char (unat a div 4), b64_char ((unat a mod 4) * 16 + unat b div 16),
      b64_char ((unat b mod 16) * 4 + unat c div 64), b64_char (unat c mod 64)]
     @ b64_groups rest"

definition b2a_base64 :: "bytes \<Rightarrow> string" where
  "b2a_base64 chunk = b64_groups chunk @ [CHR 0x0A]"

text \<open>\<open>base64.encodebytes\<close>: one line for every 57 bytes (\<open>MAXBINSIZE\<close>) of the input.\<close>

function encodebytes :: "bytes \<Rightarrow> string" where
  "encodebytes s = (if s = [] then [] else b2a_base64 (take 57 s) @ encodebytes (drop 57 s))"
  by pat_completeness auto
termination
  by (relation "measure length") auto

declare encodebytes.simps [simp del]

text \<open>
  Base64 decoding, as \<open>base64.b64decode\<close> does it: characters outside the alphabet
  (the line ends) are skipped, four characters give three bytes, and a padded group
  ends the data.
\<close>

fun index_of :: "'a \<Rightarrow> 'a list \<Rightarrow> nat" where
  "index_of x [] = 0"
| "index_of x (y # ys) = (if x = y then 0 else Suc (index_of x ys))"

definition b64_value :: "char \<Rightarrow> nat" where
  "b64_value c = index_of c b64_alphabet"

fun b64_quads :: "string \<Rightarrow> bytes" where
  "b64_quads (a # b # c # d # rest) =
     (if c = CHR ''='' then [of_nat (b64_value a * 4 + b64_value b div 16)]
      else if d = CHR ''='' then
        [of_nat (b64_value a * 4 + b64_value b div 16),
         of_nat ((b64_value b mod 16) * 16 + b64_value c div 4)]
      else
        [of_nat (b64_value a * 4 + b64_value b div 16),
         of_nat ((b64_value b mod 16) * 16 + b64_value c div 4),
         of_nat ((b64_value c mod 4) * 64 + b64_value d)]
        @ b64_quads rest)"
| "b64_quads s = []"

definition b64decode :: "string \<Rightarrow> bytes" where
  "b64decode s = b64_quads (filter (\<lambda>c. c \<in> set b64_alphabet \<or> c = CHR ''='') s)"

section \<open>The mail sender (send-mail.py)\<close>

text \<open>The namespace \<open>parser.parse_args()\<close> returns.\<close>

record mail_args =
  from_email :: string
  from_name :: string
  to_email :: string
  subject :: string
  attachment :: "string list"
  content_type :: string
  to_name :: "string option"
  cc_email :: "string list"
  cc_name :: "string list"

text \<open>
  A part of the message is the object \<open>MIMEText(text, subtype, charset)\<close>, or a
  \<open>MIMEBase\<close> object with its headers in order and its payload. The message is the
  \<open>MIMEMultipart\<close> object: its headers in order and its parts in order.
\<close>

datatype part = MIMEText string string string | MIMEBase "(string \<times> string) list" string

record message =
  headers :: "(string \<times> string) list"
  parts :: "part list"

text \<open>
  What the tool does not decide: the process environment, the content of the files
  (\<open>open(path, 'rb')\<close> followed by \<open>read()\<close>, which may raise), the header encoding of a
  non-ASCII name, the serialisation of the message, and whether each call of the SMTP
  connection raises.
\<close>

record mail_world =
  environ :: "string \<rightharpoonup> string"
  read_file :: "string \<Rightarrow> raised + bytes"
  charset_header_encode :: "string \<Rightarrow> string"
  as_string :: "message \<Rightarrow> raised + string"
  smtp_connect :: "string \<Rightarrow> raised option"
  smtp_login :: "string \<Rightarrow> string \<Rightarrow> raised option"
  smtp_sendmail :: "string \<Rightarrow> string list \<Rightarrow> string \<Rightarrow> raised option"
  smtp_quit :: "raised option"

text \<open>The calls made on the network, in order.\<close>

datatype event =
    SMTP_SSL string
  | Set_debuglevel bool
  | Login string string
  | Sendmail string "string list" string
  | Quit

text \<open>
  The list comprehension of the \<open>Cc\<close> header, over the pairs that \<open>zip\<close> gives. The
  first component of a pair is bound to \<open>name\<close> and the second to \<open>email\<close>, as the
  source binds them.
\<close>

fun format_pairs :: "(string \<Rightarrow> string) \<Rightarrow> (string \<times> string) list \<Rightarrow> exn + string list" where
  "format_pairs enc [] = Inr []"
| "format_pairs enc ((name, email) # rest) =
     (case formataddr enc (header_str (Some name), email) of
        Inl e \<Rightarrow> Inl e
      | Inr formatted \<Rightarrow>
          (case format_pairs enc rest of
             Inl e \<Rightarrow> Inl e
           | Inr others \<Rightarrow> Inr (formatted # others)))"

text \<open>The loop over the attachments: every file becomes one more part of the message.\<close>

fun attach_files :: "mail_world \<Rightarrow> string list \<Rightarrow> message \<Rightarrow> exn + message" where
  "attach_files w [] msg = Inr msg"
| "attach_files w (attachment_name # rest) msg =
     (case read_file w attachment_name of
        Inl r \<Rightarrow> Inl (Raised r)
      | Inr content \<Rightarrow>
          (let part = MIMEBase
                 [(''Content-Type'', ''application/octet-stream''),
                  (''MIME-Version'', ''1.0''),
                  (''Content-Transfer-Encoding'', ''base64''),
                  (''Content-Disposition'', ''attachment; filename='' @ attachment_name)]
                 (encodebytes content)
           in attach_files w rest (msg\<lparr>parts := parts msg @ [part]\<rparr>)))"

text \<open>
  The part of \<open>send_mail\<close> that builds the message: the headers, the body and the
  attachments. An exception raised here is not caught.
\<close>

definition build_message :: "mail_args \<Rightarrow> string \<Rightarrow> mail_world \<Rightarrow> exn + message" where
  "build_message args content w =
     (let enc = charset_header_encode w
      in case formataddr enc (header_str (Some (from_name args)), from_email args) of
           Inl e \<Rightarrow> Inl e
         | Inr from_value \<Rightarrow>
         (case formataddr enc (header_str (to_name args), to_email args) of
            Inl e \<Rightarrow> Inl e
          | Inr to_value \<Rightarrow>
          (case format_pairs enc (zip (cc_email args) (cc_name args)) of
             Inl e \<Rightarrow> Inl e
           | Inr cc_values \<Rightarrow>
               attach_files w (attachment args)
                 \<lparr>headers = [(''Content-Type'', ''multipart/mixed''),
                             (''MIME-Version'', ''1.0''),
                             (''Subject'', subject args),
                             (''From'', from_value),
                             (''To'', to_value),
                             (''Cc'', join '','' cc_values)],
                  parts = [MIMEText content (content_type args) ''utf-8'']\<rparr>)))"

text \<open>
  The \<open>try\<close> statement that ends \<open>send_mail\<close>: what the body raises, the outcome the
  \<open>except\<close> clause leaves pending, and the \<open>finally\<close> clause, which calls \<open>quit\<close>; an
  exception raised by \<open>quit\<close> replaces the pending outcome.
\<close>

definition transmit :: "mail_args \<Rightarrow> string list \<Rightarrow> message \<Rightarrow> mail_world \<Rightarrow> outcome \<times> event list" where
  "transmit args destination msg w =
     (let (raised_in_try, calls) =
            (case as_string w msg of
               Inl r \<Rightarrow> (Some r, [])
             | Inr text \<Rightarrow>
                 (smtp_sendmail w (from_email args) destination text,
                  [Sendmail (from_email args) destination text]));
          pending =
            (case raised_in_try of
               None \<Rightarrow> Returned
             | Some (Exception exc) \<Rightarrow> SysExit (''mail to f'' @ to_email args @ '' failed; '' @ exc)
             | Some (NonException exc) \<Rightarrow> Uncaught (Raised (NonException exc)))
      in (case smtp_quit w of None \<Rightarrow> pending | Some r \<Rightarrow> Uncaught (Raised r),
          calls @ [Quit]))"

definition missing_variable :: "string \<Rightarrow> string" where
  "missing_variable name = ''Unable to find '' @ name @ '' environment variable'' @ [CHR 0x0A]"

definition send_mail :: "mail_args \<Rightarrow> string \<Rightarrow> mail_world \<Rightarrow> outcome \<times> event list" where
  "send_mail args content w =
     (case environ w ''SMTP_SERVER'' of
        None \<Rightarrow> (SysExit (missing_variable ''SMTP_SERVER''), [])
      | Some smtp_server \<Rightarrow>
     (case environ w ''SMTP_USERNAME'' of
        None \<Rightarrow> (SysExit (missing_variable ''SMTP_USERNAME''), [])
      | Some username \<Rightarrow>
     (case environ w ''SMTP_PASSWORD'' of
        None \<Rightarrow> (SysExit (missing_variable ''SMTP_PASSWORD''), [])
      | Some password \<Rightarrow>
          (let destination = [from_email args, to_email args]
           in case build_message args content w of
                Inl e \<Rightarrow> (Uncaught e, [])
              | Inr msg \<Rightarrow>
              (case smtp_connect w smtp_server of
                 Some r \<Rightarrow> (Uncaught (Raised r), [SMTP_SSL smtp_server])
               | None \<Rightarrow>
               (case smtp_login w username password of
                  Some r \<Rightarrow>
                    (Uncaught (Raised r),
                     [SMTP_SSL smtp_server, Set_debuglevel False, Login username password])
                | None \<Rightarrow>
                    (case transmit args destination msg w of
                       (out, calls) \<Rightarrow>
                         (out,
                          [SMTP_SSL smtp_server, Set_debuglevel False, Login username password]
                          @ calls))))))))"

text \<open>
  \<open>parse_arguments\<close>, from the namespace that \<open>parser.parse_args()\<close> returned:
  \<open>parser.error\<close> ends the process.
\<close>

definition parse_arguments :: "mail_args \<Rightarrow> outcome + mail_args" where
  "parse_arguments args =
     (if length (cc_name args) > 0 \<and> length (cc_email args) \<noteq> length (cc_name args)
      then Inl (ArgparseError ''The number of --cc-email and --cc-name entries must match.'')
      else Inr args)"

definition main :: "mail_args \<Rightarrow> string \<Rightarrow> mail_world \<Rightarrow> outcome \<times> event list" where
  "main parsed stdin w =
     (case parse_arguments parsed of
        Inl out \<Rightarrow> (out, [])
      | Inr args \<Rightarrow> send_mail args stdin w)"

section \<open>Concrete runs\<close>

text \<open>
  An API that answers every request with two choices, and the default command line of
  the prompt query tool.
\<close>

definition api_ok :: openai where
  "api_ok = \<lparr>client_init = None, create = (\<lambda>request. Inr [Some '' ok '', Some ''other''])\<rparr>"

definition query_args_default :: query_args where
  "query_args_default = \<lparr>model = ''gpt-4o'', max_tokens = 150\<rparr>"

text \<open>
  A world in which the three variables are set, one file of four bytes exists and no
  call fails; a command line with one CC address and one CC name.
\<close>

definition world_ok :: mail_world where
  "world_ok =
     \<lparr>environ = [''SMTP_SERVER'' \<mapsto> ''smtp.example.org'', ''SMTP_USERNAME'' \<mapsto> ''user'',
                 ''SMTP_PASSWORD'' \<mapsto> ''secret''],
      read_file = (\<lambda>path. if path = ''file.bin'' then Inr [0x00, 0xFF, 0x10, 0x41]
                           else Inl (Exception ''No such file or directory'')),
      charset_header_encode = (\<lambda>name. name),
      as_string = (\<lambda>msg. Inr ''serialised message''),
      smtp_connect = (\<lambda>host. None),
      smtp_login = (\<lambda>user password. None),
      smtp_sendmail = (\<lambda>sender recipients text. None),
      smtp_quit = None\<rparr>"

text \<open>The same world, where the server refuses the login, or refuses the message.\<close>

definition world_login_fails :: mail_world where
  "world_login_fails =
     world_ok\<lparr>smtp_login := (\<lambda>user password. Some (Exception ''Authentication failed''))\<rparr>"

definition world_sendmail_fails :: mail_world where
  "world_sendmail_fails =
     world_ok\<lparr>smtp_sendmail := (\<lambda>sender recipients text. Some (Exception ''Recipient refused''))\<rparr>"

text \<open>The same world without \<open>SMTP_PASSWORD\<close>.\<close>

definition world_no_password :: mail_world where
  "world_no_password =
     world_ok\<lparr>environ := [''SMTP_SERVER'' \<mapsto> ''smtp.example.org'', ''SMTP_USERNAME'' \<mapsto> ''user'']\<rparr>"

definition args_example :: mail_args where
  "args_example =
     \<lparr>from_email = ''a@x'', from_name = ''A'', to_email = ''b@x'', subject = ''S'',
      attachment = [], content_type = ''plain'', to_name = None,
      cc_email = [''c@x''], cc_name = [''C'']\<rparr>"

section \<open>Properties of the prompt query tool\<close>

lemma query_openai_requests:
  "snd (query_openai prompt m k api) =
     (case client_init api of
        Some r \<Rightarrow> []
      | None \<Rightarrow> [[(''messages'', Messages [[(''role'', ''user''), (''content'', prompt)]]),
                  (''model'', Str m)]])"
  by (simp add: query_openai_def Let_def split: option.splits sum.splits list.splits)

text \<open>
  C4: the value of \<open>--max_tokens\<close> reaches \<open>query_openai\<close> and is not used there. Two
  invocations that differ only in \<open>max_tokens\<close> issue the same requests and end the same
  way, and no request issued carries a \<open>max_tokens\<close> keyword.
\<close>

theorem max_tokens_not_forwarded:
  "query_openai prompt m k1 api = query_openai prompt m k2 api
   \<and> query_main (args\<lparr>max_tokens := k1\<rparr>) stdin api = query_main (args\<lparr>max_tokens := k2\<rparr>) stdin api
   \<and> list_all (\<lambda>request. map_of request ''max_tokens'' = None)
         (snd (snd (query_main (args\<lparr>max_tokens := k1\<rparr>) stdin api)))"
proof -
  have same: "\<And>p. query_openai p m k1 api = query_openai p m k2 api"
    by (simp add: query_openai_def)
  have whole: "query_main (args\<lparr>max_tokens := k1\<rparr>) stdin api
                = query_main (args\<lparr>max_tokens := k2\<rparr>) stdin api"
    by (simp add: query_main_def query_openai_def)
  have reqs: "snd (snd (query_main (args\<lparr>max_tokens := k1\<rparr>) stdin api))
                = snd (query_openai (strip stdin) (model args) k1 api)"
    by (simp add: query_main_def Let_def split: prod.splits sum.splits)
  have none: "list_all (\<lambda>request. map_of request ''max_tokens'' = None)
                (snd (query_openai (strip stdin) (model args) k1 api))"
    by (simp add: query_openai_requests split: option.splits)
  show ?thesis using same whole reqs none by simp
qed

theorem max_tokens_not_forwarded_witness:
  "query_main (query_args_default\<lparr>max_tokens := 1\<rparr>) ''hi'' api_ok
     = query_main (query_args_default\<lparr>max_tokens := 4096\<rparr>) ''hi'' api_ok
   \<and> snd (snd (query_main (query_args_default\<lparr>max_tokens := 1\<rparr>) ''hi'' api_ok))
     = [[(''messages'', Messages [[(''role'', ''user''), (''content'', ''hi'')]]),
         (''model'', Str ''gpt-4o'')]]"
  using max_tokens_not_forwarded [of "''hi''" "''gpt-4o''" 1 api_ok 4096 query_args_default "''hi''"]
  by (simp add: query_main_def query_openai_def api_ok_def query_args_default_def strip_def
      isspace_def)

text \<open>
  C8, as the code has it: the prompt sent is the text of standard input with leading
  and trailing whitespace stripped. Once the client is constructed, the tool issues
  exactly one request, with a single user message whose content is that stripped text
  and with the model of \<open>--model\<close>; when the API answers with a completion whose first
  choice has a text, \<open>query_openai\<close> returns that text stripped and the tool prints it.
\<close>

theorem prompt_request_and_response:
  assumes "client_init api = None"
  shows "snd (snd (query_main args stdin api)) =
           [[(''messages'', Messages [[(''role'', ''user''), (''content'', strip stdin)]]),
             (''model'', Str (model args))]]
         \<and> (\<forall>text rest.
               create api [(''messages'', Messages [[(''role'', ''user''), (''content'', strip stdin)]]),
                           (''model'', Str (model args))] = Inr (Some text # rest)
               \<longrightarrow> query_openai (strip stdin) (model args) (max_tokens args) api
                     = (Inr (strip text),
                        [[(''messages'', Messages [[(''role'', ''user''), (''content'', strip stdin)]]),
                          (''model'', Str (model args))]])
                 \<and> fst (query_main args stdin api) = Returned
                 \<and> fst (snd (query_main args stdin api)) = strip text @ [CHR 0x0A])"
  using assms
  by (simp add: query_main_def query_openai_def Let_def split: sum.splits list.splits option.splits)

theorem prompt_request_and_response_witness:
  "client_init api_ok = None
   \<and> query_main query_args_default (''hi'' @ [CHR 0x0A]) api_ok
       = (Returned, ''ok'' @ [CHR 0x0A],
          [[(''messages'', Messages [[(''role'', ''user''), (''content'', ''hi'')]]),
            (''model'', Str ''gpt-4o'')]])"
  using prompt_request_and_response [of api_ok query_args_default "''hi'' @ [CHR 0x0A]"]
  by (simp add: api_ok_def query_args_default_def query_main_def query_openai_def strip_def
      isspace_def)

text \<open>
  C8 as the claim states it fails on the input \<open>hi\<close> followed by a newline: the text
  read from standard input is not empty, and the content of the request is \<open>hi\<close>, not
  the text read.
\<close>

theorem prompt_sent_verbatim_counterexample:
  "''hi'' @ [CHR 0x0A] \<noteq> []
   \<and> snd (snd (query_main query_args_default (''hi'' @ [CHR 0x0A]) api_ok))
       = [[(''messages'', Messages [[(''role'', ''user''), (''content'', ''hi'')]]),
           (''model'', Str ''gpt-4o'')]]
   \<and> ''hi'' \<noteq> ''hi'' @ [CHR 0x0A]"
  by (simp add: api_ok_def query_args_default_def query_main_def query_openai_def strip_def
      isspace_def)

section \<open>Properties of the mail sender\<close>

text \<open>The calls \<open>send_mail\<close> can make on the network: five shapes, and no other.\<close>

lemma send_mail_calls:
  "snd (send_mail args content w) = [] \<or>
   (\<exists>host. snd (send_mail args content w) = [SMTP_SSL host]) \<or>
   (\<exists>host user password. snd (send_mail args content w)
        = [SMTP_SSL host, Set_debuglevel False, Login user password]) \<or>
   (\<exists>host user password. snd (send_mail args content w)
        = [SMTP_SSL host, Set_debuglevel False, Login user password, Quit]) \<or>
   (\<exists>host user password text. snd (send_mail args content w)
        = [SMTP_SSL host, Set_debuglevel False, Login user password,
           Sendmail (from_email args) [from_email args, to_email args] text, Quit])"
  by (simp add: send_mail_def transmit_def Let_def split: option.splits sum.splits prod.splits)

lemma main_calls:
  "snd (main args content w) = []
   \<or> snd (main args content w) = snd (send_mail args content w)"
  by (simp add: main_def parse_arguments_def)

lemma run_world_ok:
  "main args_example ''hello'' world_ok =
     (Returned, [SMTP_SSL ''smtp.example.org'', Set_debuglevel False, Login ''user'' ''secret'',
                 Sendmail ''a@x'' [''a@x'', ''b@x''] ''serialised message'', Quit])"
  by (simp add: main_def parse_arguments_def send_mail_def transmit_def build_message_def
      formataddr_def is_ascii_def specials_def escape_def world_ok_def args_example_def)

lemma run_world_sendmail_fails:
  "main args_example ''hello'' world_sendmail_fails =
     (SysExit ''mail to fb@x failed; Recipient refused'',
      [SMTP_SSL ''smtp.example.org'', Set_debuglevel False, Login ''user'' ''secret'',
       Sendmail ''a@x'' [''a@x'', ''b@x''] ''serialised message'', Quit])"
  by (simp add: main_def parse_arguments_def send_mail_def transmit_def build_message_def
      formataddr_def is_ascii_def specials_def escape_def world_ok_def world_sendmail_fails_def
      args_example_def)

text \<open>
  C2: whenever \<open>sendmail\<close> is called, its sender is \<open>from_email\<close> and its recipient list
  is exactly \<open>[from_email, to_email]\<close>, whatever \<open>--cc-email\<close> options were given.
\<close>

theorem envelope_recipients:
  assumes "Sendmail sender destination text \<in> set (snd (main args content w))"
  shows "sender = from_email args \<and> destination = [from_email args, to_email args]"
proof -
  from assms main_calls [of args content w]
  have "Sendmail sender destination text \<in> set (snd (send_mail args content w))"
    by auto
  with send_mail_calls [of args content w] show ?thesis
    by auto
qed

theorem envelope_recipients_witness:
  "Sendmail ''a@x'' [''a@x'', ''b@x''] ''serialised message''
     \<in> set (snd (main args_example ''hello'' world_ok))
   \<and> ''a@x'' = from_email args_example
   \<and> [''a@x'', ''b@x''] = [from_email args_example, to_email args_example]
   \<and> cc_email args_example = [''c@x'']"
proof -
  have sent: "Sendmail ''a@x'' [''a@x'', ''b@x''] ''serialised message''
     \<in> set (snd (main args_example ''hello'' world_ok))"
    by (simp add: run_world_ok)
  from envelope_recipients [OF sent] sent show ?thesis
    by (simp add: args_example_def)
qed

text \<open>
  C7: in every run that reaches the \<open>sendmail\<close> call, \<open>quit\<close> is called exactly once,
  whether \<open>sendmail\<close> returns or raises.
\<close>

theorem quit_exactly_once:
  assumes "Sendmail sender destination text \<in> set (snd (main args content w))"
  shows "count_list (snd (main args content w)) Quit = 1"
proof -
  from assms main_calls [of args content w]
  have same: "snd (main args content w) = snd (send_mail args content w)"
    by auto
  with assms have "Sendmail sender destination text \<in> set (snd (send_mail args content w))"
    by simp
  with send_mail_calls [of args content w]
  have "count_list (snd (send_mail args content w)) Quit = 1"
    by auto
  with same show ?thesis by simp
qed

theorem quit_exactly_once_witness:
  "Sendmail ''a@x'' [''a@x'', ''b@x''] ''serialised message''
     \<in> set (snd (main args_example ''hello'' world_ok))
   \<and> fst (main args_example ''hello'' world_ok) = Returned
   \<and> count_list (snd (main args_example ''hello'' world_ok)) Quit = 1
   \<and> Sendmail ''a@x'' [''a@x'', ''b@x''] ''serialised message''
     \<in> set (snd (main args_example ''hello'' world_sendmail_fails))
   \<and> fst (main args_example ''hello'' world_sendmail_fails)
     = SysExit ''mail to fb@x failed; Recipient refused''
   \<and> count_list (snd (main args_example ''hello'' world_sendmail_fails)) Quit = 1"
proof -
  have sent: "Sendmail ''a@x'' [''a@x'', ''b@x''] ''serialised message''
     \<in> set (snd (main args_example ''hello'' world_ok))"
    by (simp add: run_world_ok)
  have refused: "Sendmail ''a@x'' [''a@x'', ''b@x''] ''serialised message''
     \<in> set (snd (main args_example ''hello'' world_sendmail_fails))"
    by (simp add: run_world_sendmail_fails)
  from quit_exactly_once [OF sent] quit_exactly_once [OF refused] sent refused show ?thesis
    by (simp add: run_world_ok run_world_sendmail_fails)
qed

text \<open>
  C5: when one of \<open>SMTP_SERVER\<close>, \<open>SMTP_USERNAME\<close>, \<open>SMTP_PASSWORD\<close> is unset,
  \<open>send_mail\<close> ends in \<open>sys.exit\<close> with status 1 before any call on the network, and
  the message names a variable that is unset (the first one in the order of the lookups).
  The tool as a whole makes no call on the network and exits with a status other than 0,
  and it ends as \<open>send_mail\<close> does when the command line passed validation.
\<close>

theorem missing_variable_exits:
  assumes "environ w ''SMTP_SERVER'' = None \<or> environ w ''SMTP_USERNAME'' = None
           \<or> environ w ''SMTP_PASSWORD'' = None"
  shows "\<exists>name. name \<in> set [''SMTP_SERVER'', ''SMTP_USERNAME'', ''SMTP_PASSWORD'']
           \<and> environ w name = None
           \<and> send_mail args content w
               = (SysExit (''Unable to find '' @ name @ '' environment variable'' @ [CHR 0x0A]), [])
           \<and> exit_status (fst (send_mail args content w)) = 1
           \<and> snd (main args content w) = []
           \<and> exit_status (fst (main args content w)) \<noteq> 0
           \<and> (parse_arguments args = Inr args
                \<longrightarrow> main args content w = send_mail args content w)"
proof -
  consider (server) "environ w ''SMTP_SERVER'' = None"
    | (username) "environ w ''SMTP_SERVER'' \<noteq> None" "environ w ''SMTP_USERNAME'' = None"
    | (password) "environ w ''SMTP_SERVER'' \<noteq> None" "environ w ''SMTP_USERNAME'' \<noteq> None"
        "environ w ''SMTP_PASSWORD'' = None"
    using assms by auto
  then show ?thesis
  proof cases
    case server
    then have "send_mail args content w = (SysExit (missing_variable ''SMTP_SERVER''), [])"
      by (simp add: send_mail_def)
    with server show ?thesis
      by (intro exI [of _ "''SMTP_SERVER''"])
         (simp add: missing_variable_def main_def parse_arguments_def)
  next
    case username
    then have "send_mail args content w = (SysExit (missing_variable ''SMTP_USERNAME''), [])"
      by (auto simp add: send_mail_def)
    with username show ?thesis
      by (intro exI [of _ "''SMTP_USERNAME''"])
         (simp add: missing_variable_def main_def parse_arguments_def)
  next
    case password
    then have "send_mail args content w = (SysExit (missing_variable ''SMTP_PASSWORD''), [])"
      by (auto simp add: send_mail_def)
    with password show ?thesis
      by (intro exI [of _ "''SMTP_PASSWORD''"])
         (simp add: missing_variable_def main_def parse_arguments_def)
  qed
qed

theorem missing_variable_exits_witness:
  "environ world_no_password ''SMTP_PASSWORD'' = None
   \<and> send_mail args_example ''hello'' world_no_password
       = (SysExit (''Unable to find SMTP_PASSWORD environment variable'' @ [CHR 0x0A]), [])
   \<and> main args_example ''hello'' world_no_password
       = (SysExit (''Unable to find SMTP_PASSWORD environment variable'' @ [CHR 0x0A]), [])"
proof -
  have unset: "environ world_no_password ''SMTP_SERVER'' = None
      \<or> environ world_no_password ''SMTP_USERNAME'' = None
      \<or> environ world_no_password ''SMTP_PASSWORD'' = None"
    by (simp add: world_no_password_def world_ok_def)
  from missing_variable_exits [OF unset, of args_example "''hello''"] show ?thesis
    by (simp add: world_no_password_def world_ok_def send_mail_def missing_variable_def
        main_def parse_arguments_def args_example_def)
qed

text \<open>
  C6: when at least one \<open>--cc-name\<close> is given and the numbers of \<open>--cc-name\<close> and
  \<open>--cc-email\<close> entries differ, the tool ends in \<open>parser.error\<close>, a usage error with
  status 2, and no call on the network has been made.
\<close>

theorem cc_count_mismatch_is_usage_error:
  assumes "length (cc_name parsed) > 0" and "length (cc_email parsed) \<noteq> length (cc_name parsed)"
  shows "main parsed stdin w
           = (ArgparseError ''The number of --cc-email and --cc-name entries must match.'', [])
         \<and> exit_status (fst (main parsed stdin w)) = 2"
  using assms by (simp add: main_def parse_arguments_def)

theorem cc_count_mismatch_is_usage_error_witness:
  "length (cc_name (args_example\<lparr>cc_email := [''a@x'', ''b@x''], cc_name := [''A'']\<rparr>)) > 0
   \<and> length (cc_email (args_example\<lparr>cc_email := [''a@x'', ''b@x''], cc_name := [''A'']\<rparr>))
     \<noteq> length (cc_name (args_example\<lparr>cc_email := [''a@x'', ''b@x''], cc_name := [''A'']\<rparr>))
   \<and> main (args_example\<lparr>cc_email := [''a@x'', ''b@x''], cc_name := [''A'']\<rparr>) ''hello'' world_ok
       = (ArgparseError ''The number of --cc-email and --cc-name entries must match.'', [])"
  using cc_count_mismatch_is_usage_error
    [of "args_example\<lparr>cc_email := [''a@x'', ''b@x''], cc_name := [''A'']\<rparr>" "''hello''" world_ok]
  by simp

text \<open>The attachments add parts and leave the headers of the message as they are.\<close>

lemma attach_files_headers:
  "attach_files w names msg = Inr msg' \<Longrightarrow> headers msg' = headers msg"
  by (induction names arbitrary: msg) (auto simp add: Let_def split: sum.splits)

text \<open>
  The \<open>Cc\<close> header of a message that was built: the formatted pairs of
  \<open>zip(cc_email, cc_name)\<close>, joined with commas.
\<close>

lemma build_message_cc:
  assumes "build_message args content w = Inr msg"
  shows "\<exists>cc_values.
           format_pairs (charset_header_encode w) (zip (cc_email args) (cc_name args)) = Inr cc_values
           \<and> map_of (headers msg) ''Cc'' = Some (join '','' cc_values)"
  using assms
  by (auto simp add: build_message_def Let_def split: sum.splits dest!: attach_files_headers)

lemma build_message_without_cc_name:
  "cc_name args = [] \<Longrightarrow>
     build_message args content w = build_message (args\<lparr>cc_email := []\<rparr>) content w"
  by (simp add: build_message_def Let_def split: sum.splits)

lemma send_mail_without_cc_name:
  "cc_name args = [] \<Longrightarrow>
     send_mail args content w = send_mail (args\<lparr>cc_email := []\<rparr>) content w"
  by (simp add: send_mail_def transmit_def build_message_without_cc_name [symmetric]
      split: option.splits sum.splits raised.splits)

text \<open>
  C10: with no \<open>--cc-name\<close>, validation passes whatever the number of \<open>--cc-email\<close>
  entries, and the CC addresses are dropped: the message built, and the whole run, are
  those of the same command line without any \<open>--cc-email\<close>, and the \<open>Cc\<close> header of
  the message built is empty.
\<close>

theorem cc_email_without_names_dropped:
  assumes "cc_name args = []"
  shows "parse_arguments args = Inr args
         \<and> build_message args content w = build_message (args\<lparr>cc_email := []\<rparr>) content w
         \<and> main args content w = main (args\<lparr>cc_email := []\<rparr>) content w
         \<and> (\<forall>msg. build_message args content w = Inr msg
                \<longrightarrow> map_of (headers msg) ''Cc'' = Some [])"
proof -
  have valid: "parse_arguments args = Inr args"
    using assms by (simp add: parse_arguments_def)
  have valid': "parse_arguments (args\<lparr>cc_email := []\<rparr>) = Inr (args\<lparr>cc_email := []\<rparr>)"
    using assms by (simp add: parse_arguments_def)
  have main: "main args content w = main (args\<lparr>cc_email := []\<rparr>) content w"
    using valid valid' send_mail_without_cc_name [OF assms]
    by (simp add: main_def)
  have empty: "map_of (headers msg) ''Cc'' = Some []"
    if "build_message args content w = Inr msg" for msg
    using build_message_cc [OF that] assms by auto
  from valid main empty build_message_without_cc_name [OF assms] show ?thesis
    by blast
qed

theorem cc_email_without_names_dropped_witness:
  "cc_email (args_example\<lparr>cc_name := []\<rparr>) = [''c@x'']
   \<and> cc_name (args_example\<lparr>cc_name := []\<rparr>) = []
   \<and> parse_arguments (args_example\<lparr>cc_name := []\<rparr>) = Inr (args_example\<lparr>cc_name := []\<rparr>)
   \<and> build_message (args_example\<lparr>cc_name := []\<rparr>) ''hello'' world_ok
       = Inr \<lparr>headers = [(''Content-Type'', ''multipart/mixed''), (''MIME-Version'', ''1.0''),
                          (''Subject'', ''S''), (''From'', ''A <a@x>''), (''To'', ''b@x''),
                          (''Cc'', [])],
               parts = [MIMEText ''hello'' ''plain'' ''utf-8'']\<rparr>"
proof -
  have no_names: "cc_name (args_example\<lparr>cc_name := []\<rparr>) = []"
    by simp
  from cc_email_without_names_dropped [OF no_names, of "''hello''" world_ok] show ?thesis
    by (simp add: build_message_def formataddr_def is_ascii_def specials_def escape_def
        world_ok_def args_example_def)
qed

text \<open>
  C1 fails on the code. With \<open>--cc-email c@x --cc-name C\<close> the \<open>Cc\<close> header has the
  address \<open>c@x\<close> as the display name (quoted, since it contains \<open>@\<close>) and the name \<open>C\<close>
  as the address: the loop binds \<open>name\<close> to the elements of \<open>cc_email\<close> and \<open>email\<close> to
  those of \<open>cc_name\<close>. The pair the claim describes is formatted \<open>C <c@x>\<close>.
\<close>

theorem cc_name_and_address_swapped:
  "cc_email args_example = [''c@x''] \<and> cc_name args_example = [''C'']
   \<and> build_message args_example ''hello'' world_ok
       = Inr \<lparr>headers = [(''Content-Type'', ''multipart/mixed''), (''MIME-Version'', ''1.0''),
                          (''Subject'', ''S''), (''From'', ''A <a@x>''), (''To'', ''b@x''),
                          (''Cc'', [CHR 0x22] @ ''c@x'' @ [CHR 0x22] @ '' <C>'')],
               parts = [MIMEText ''hello'' ''plain'' ''utf-8'']\<rparr>
   \<and> formataddr (charset_header_encode world_ok) (header_str (Some ''C''), ''c@x'')
       = Inr ''C <c@x>''"
  by (simp add: build_message_def formataddr_def is_ascii_def specials_def escape_def
      world_ok_def args_example_def)

text \<open>
  C3 fails on the code. When \<open>login\<close> raises, the exception is not caught and the run
  ends without a call of \<open>quit\<close>: the \<open>try\<close> statement whose \<open>finally\<close> clause calls
  \<open>quit\<close> starts after the login.
\<close>

theorem login_failure_skips_quit:
  "main args_example ''hello'' world_login_fails
     = (Uncaught (Raised (Exception ''Authentication failed'')),
        [SMTP_SSL ''smtp.example.org'', Set_debuglevel False, Login ''user'' ''secret''])
   \<and> count_list (snd (main args_example ''hello'' world_login_fails)) Quit = 0"
  by (simp add: main_def parse_arguments_def send_mail_def build_message_def
      formataddr_def is_ascii_def specials_def escape_def world_ok_def world_login_fails_def
      args_example_def)

section \<open>Base64: decoding inverts encoding\<close>

text \<open>
  Every index below 64 has its own character of the alphabet, none of them the padding
  character.
\<close>

lemma b64_table:
  "list_all (\<lambda>n. b64_value (b64_char n) = n \<and> b64_char n \<noteq> CHR ''=''
                  \<and> b64_char n \<in> set b64_alphabet) [0..<64]"
  by code_simp

lemma b64_char_value: "n < 64 \<Longrightarrow> b64_value (b64_char n) = n"
  using b64_table by (simp add: list_all_iff del: upt_Suc)

lemma b64_char_not_pad: "n < 64 \<Longrightarrow> b64_char n \<noteq> CHR ''=''"
  using b64_table by (simp add: list_all_iff del: upt_Suc)

lemma b64_char_alphabet: "n < 64 \<Longrightarrow> b64_char n \<in> set b64_alphabet"
  using b64_table by (simp add: list_all_iff del: upt_Suc)

text \<open>The six-bit groups of three bytes, and the bytes back from the groups.\<close>

lemma byte_bound: "unat (a :: 8 word) < 256"
  using unsigned_less [of a, where ?'a = nat] by simp

lemma sextets_bound:
  fixes a b c :: "8 word"
  shows "unat a div 4 < 64" "unat a mod 4 * 16 < 64" "unat a mod 4 * 16 + unat b div 16 < 64"
    "unat b mod 16 * 4 < 64" "unat b mod 16 * 4 + unat c div 64 < 64" "unat c mod 64 < 64"
  using byte_bound [of a] byte_bound [of b] byte_bound [of c] by auto

lemma bytes_back:
  fixes a b c :: "8 word"
  shows "of_nat (unat a div 4 * 4 + (unat a mod 4 * 16 + unat b div 16) div 16) = a"
    "of_nat (unat a div 4 * 4 + (unat a mod 4 * 16) div 16) = a"
    "of_nat ((unat a mod 4 * 16 + unat b div 16) mod 16 * 16
             + (unat b mod 16 * 4 + unat c div 64) div 4) = b"
    "of_nat ((unat a mod 4 * 16 + unat b div 16) mod 16 * 16 + (unat b mod 16 * 4) div 4) = b"
    "of_nat ((unat b mod 16 * 4 + unat c div 64) mod 4 * 64 + unat c mod 64) = c"
proof -
  have b16: "unat b div 16 < 16" and c64: "unat c div 64 < 4"
    using byte_bound [of b] byte_bound [of c] by auto
  have "unat a div 4 * 4 + (unat a mod 4 * 16 + unat b div 16) div 16 = unat a"
    using b16 by auto
  then show "of_nat (unat a div 4 * 4 + (unat a mod 4 * 16 + unat b div 16) div 16) = a"
    by simp
  have "unat a div 4 * 4 + (unat a mod 4 * 16) div 16 = unat a"
    by auto
  then show "of_nat (unat a div 4 * 4 + (unat a mod 4 * 16) div 16) = a"
    by simp
  have "(unat a mod 4 * 16 + unat b div 16) mod 16 * 16
          + (unat b mod 16 * 4 + unat c div 64) div 4 = unat b"
    using b16 c64 by auto
  then show "of_nat ((unat a mod 4 * 16 + unat b div 16) mod 16 * 16
             + (unat b mod 16 * 4 + unat c div 64) div 4) = b"
    by simp
  have "(unat a mod 4 * 16 + unat b div 16) mod 16 * 16 + (unat b mod 16 * 4) div 4 = unat b"
    using b16 by auto
  then show "of_nat ((unat a mod 4 * 16 + unat b div 16) mod 16 * 16 + (unat b mod 16 * 4) div 4) = b"
    by simp
  have "(unat b mod 16 * 4 + unat c div 64) mod 4 * 64 + unat c mod 64 = unat c"
    using c64 by auto
  then show "of_nat ((unat b mod 16 * 4 + unat c div 64) mod 4 * 64 + unat c mod 64) = c"
    by simp
qed



text \<open>Decoding one group of four characters, full or padded.\<close>

lemma quad_decode:
  assumes "n1 < 64" "n2 < 64" "n3 < 64" "n4 < 64"
  shows "b64_quads (b64_char n1 # b64_char n2 # b64_char n3 # b64_char n4 # rest)
           = [of_nat (n1 * 4 + n2 div 16), of_nat (n2 mod 16 * 16 + n3 div 4),
              of_nat (n3 mod 4 * 64 + n4)] @ b64_quads rest"
  using assms by (simp add: b64_char_value b64_char_not_pad)

lemma quad_decode_pad1:
  assumes "n1 < 64" "n2 < 64" "n3 < 64"
  shows "b64_quads (b64_char n1 # b64_char n2 # b64_char n3 # CHR ''='' # rest)
           = [of_nat (n1 * 4 + n2 div 16), of_nat (n2 mod 16 * 16 + n3 div 4)]"
  using assms by (simp add: b64_char_value b64_char_not_pad)

lemma quad_decode_pad2:
  assumes "n1 < 64" "n2 < 64"
  shows "b64_quads (b64_char n1 # b64_char n2 # CHR ''='' # CHR ''='' # rest)
           = [of_nat (n1 * 4 + n2 div 16)]"
  using assms by (simp add: b64_char_value)

text \<open>
  A run of full groups decodes to its bytes and leaves the rest to be decoded; any
  encoded chunk decodes to its bytes.
\<close>

lemma b64_quads_groups_append:
  "length xs mod 3 = 0 \<Longrightarrow> b64_quads (b64_groups xs @ rest) = xs @ b64_quads rest"
proof (induction xs rule: b64_groups.induct)
  case 1
  show ?case by simp
next
  case (2 a)
  then show ?case by simp
next
  case (3 a b)
  then show ?case by simp
next
  case (4 a b c more)
  then have IH: "b64_quads (b64_groups more @ rest) = more @ b64_quads rest"
    by simp
  have "b64_quads (b64_groups (a # b # c # more) @ rest)
      = b64_quads (b64_char (unat a div 4) # b64_char (unat a mod 4 * 16 + unat b div 16)
          # b64_char (unat b mod 16 * 4 + unat c div 64) # b64_char (unat c mod 64)
          # (b64_groups more @ rest))"
    by simp
  also have "\<dots> = [a, b, c] @ b64_quads (b64_groups more @ rest)"
    by (simp only: quad_decode sextets_bound bytes_back)
  finally show ?case
    by (simp add: IH)
qed

lemma b64_quads_groups: "b64_quads (b64_groups xs) = xs"
proof (induction xs rule: b64_groups.induct)
  case 1
  show ?case by simp
next
  case (2 a)
  have "b64_quads (b64_groups [a])
      = b64_quads (b64_char (unat a div 4) # b64_char (unat a mod 4 * 16)
          # CHR ''='' # CHR ''='' # [])"
    by simp
  also have "\<dots> = [a]"
    by (simp only: quad_decode_pad2 sextets_bound bytes_back)
  finally show ?case .
next
  case (3 a b)
  have "b64_quads (b64_groups [a, b])
      = b64_quads (b64_char (unat a div 4) # b64_char (unat a mod 4 * 16 + unat b div 16)
          # b64_char (unat b mod 16 * 4) # CHR ''='' # [])"
    by simp
  also have "\<dots> = [a, b]"
    by (simp only: quad_decode_pad1 sextets_bound bytes_back)
  finally show ?case .
next
  case (4 a b c more)
  have "b64_quads (b64_groups (a # b # c # more))
      = b64_quads (b64_char (unat a div 4) # b64_char (unat a mod 4 * 16 + unat b div 16)
          # b64_char (unat b mod 16 * 4 + unat c div 64) # b64_char (unat c mod 64)
          # b64_groups more)"
    by simp
  also have "\<dots> = [a, b, c] @ b64_quads (b64_groups more)"
    by (simp only: quad_decode sextets_bound bytes_back)
  finally show ?case
    by (simp add: 4)
qed

text \<open>The decoder keeps every character of an encoded chunk and skips the line ends.\<close>

lemma b64_groups_kept:
  "filter (\<lambda>c. c \<in> set b64_alphabet \<or> c = CHR ''='') (b64_groups xs) = b64_groups xs"
  by (induction xs rule: b64_groups.induct) (simp_all add: b64_char_alphabet sextets_bound)

lemma newline_skipped: "CHR 0x0A \<notin> set b64_alphabet"
  by (simp add: b64_alphabet_def)


text \<open>The payload \<open>encodebytes\<close> writes decodes to the bytes it was given.\<close>

lemma b64decode_encodebytes: "b64decode (encodebytes s) = s"
proof (induction s rule: encodebytes.induct)
  case (1 s)
  show ?case
  proof (cases "length s \<le> 57")
    case True
    have "encodebytes [] = []"
      by (subst encodebytes.simps) simp
    with True have "encodebytes s = (if s = [] then [] else b64_groups s @ [CHR 0x0A])"
      by (subst encodebytes.simps) (simp add: b2a_base64_def)
    then show ?thesis
      by (simp add: b64decode_def b64_groups_kept newline_skipped b64_quads_groups)
  next
    case False
    then have nonempty: "s \<noteq> []" and full: "length (take 57 s) mod 3 = 0"
      by auto
    from nonempty have unfold: "encodebytes s
        = b64_groups (take 57 s) @ [CHR 0x0A] @ encodebytes (drop 57 s)"
      by (subst encodebytes.simps) (simp add: b2a_base64_def)
    from 1 nonempty have rest: "b64decode (encodebytes (drop 57 s)) = drop 57 s"
      by simp
    have "b64decode (encodebytes s)
        = b64_quads (b64_groups (take 57 s)
            @ filter (\<lambda>c. c \<in> set b64_alphabet \<or> c = CHR ''='') (encodebytes (drop 57 s)))"
      by (simp add: unfold b64decode_def b64_groups_kept newline_skipped)
    also have "\<dots> = take 57 s @ b64decode (encodebytes (drop 57 s))"
      using b64_quads_groups_append [OF full] by (simp add: b64decode_def)
    finally show ?thesis
      by (simp add: rest)
  qed
qed

section \<open>Attachments\<close>

text \<open>
  C9: with exactly one \<open>--attachment\<close> path, naming a file that can be read, and with
  the \<open>From\<close>, \<open>To\<close> and \<open>Cc\<close> headers formatted, the message is built, and it has
  exactly two parts: the body and one binary part (\<open>application/octet-stream\<close>,
  base64). The payload of that part is the encoding of the bytes of the file, which
  decodes to those bytes, and its \<open>Content-Disposition\<close> header is
  \<open>attachment; filename=\<close> followed by the path as given, with no escaping.
\<close>

theorem one_attachment:
  assumes "attachment args = [path]" and "read_file w path = Inr content"
    and "formataddr (charset_header_encode w) (header_str (Some (from_name args)), from_email args)
           = Inr from_value"
    and "formataddr (charset_header_encode w) (header_str (to_name args), to_email args)
           = Inr to_value"
    and "format_pairs (charset_header_encode w) (zip (cc_email args) (cc_name args))
           = Inr cc_values"
  shows "build_message args body w
           = Inr \<lparr>headers = [(''Content-Type'', ''multipart/mixed''), (''MIME-Version'', ''1.0''),
                              (''Subject'', subject args), (''From'', from_value),
                              (''To'', to_value), (''Cc'', join '','' cc_values)],
                   parts = [MIMEText body (content_type args) ''utf-8'',
                            MIMEBase [(''Content-Type'', ''application/octet-stream''),
                                      (''MIME-Version'', ''1.0''),
                                      (''Content-Transfer-Encoding'', ''base64''),
                                      (''Content-Disposition'', ''attachment; filename='' @ path)]
                                     (encodebytes content)]\<rparr>
         \<and> b64decode (encodebytes content) = content"
  using assms by (simp add: build_message_def Let_def b64decode_encodebytes)

theorem one_attachment_witness:
  "attachment (args_example\<lparr>attachment := [''file.bin'']\<rparr>) = [''file.bin'']
   \<and> read_file world_ok ''file.bin'' = Inr [0x00, 0xFF, 0x10, 0x41]
   \<and> formataddr (charset_header_encode world_ok) (header_str (Some ''A''), ''a@x'') = Inr ''A <a@x>''
   \<and> formataddr (charset_header_encode world_ok) (header_str None, ''b@x'') = Inr ''b@x''
   \<and> format_pairs (charset_header_encode world_ok) (zip [''c@x''] [''C''])
       = Inr [[CHR 0x22] @ ''c@x'' @ [CHR 0x22] @ '' <C>'']
   \<and> build_message (args_example\<lparr>attachment := [''file.bin'']\<rparr>) ''hello'' world_ok
      = Inr \<lparr>headers = [(''Content-Type'', ''multipart/mixed''), (''MIME-Version'', ''1.0''),
                         (''Subject'', ''S''), (''From'', ''A <a@x>''), (''To'', ''b@x''),
                         (''Cc'', [CHR 0x22] @ ''c@x'' @ [CHR 0x22] @ '' <C>'')],
              parts = [MIMEText ''hello'' ''plain'' ''utf-8'',
                       MIMEBase [(''Content-Type'', ''application/octet-stream''),
                                 (''MIME-Version'', ''1.0''),
                                 (''Content-Transfer-Encoding'', ''base64''),
                                 (''Content-Disposition'', ''attachment; filename=file.bin'')]
                                (''AP8QQQ=='' @ [CHR 0x0A])]\<rparr>
   \<and> b64decode (''AP8QQQ=='' @ [CHR 0x0A]) = [0x00, 0xFF, 0x10, 0x41]"
proof -
  have one: "attachment (args_example\<lparr>attachment := [''file.bin'']\<rparr>) = [''file.bin'']"
    by simp
  have readable: "read_file world_ok ''file.bin'' = Inr [0x00, 0xFF, 0x10, 0x41]"
    by (simp add: world_ok_def)
  have sender: "formataddr (charset_header_encode world_ok)
      (header_str (Some (from_name (args_example\<lparr>attachment := [''file.bin'']\<rparr>))),
       from_email (args_example\<lparr>attachment := [''file.bin'']\<rparr>)) = Inr ''A <a@x>''"
    by (simp add: formataddr_def is_ascii_def specials_def escape_def args_example_def)
  have recipient: "formataddr (charset_header_encode world_ok)
      (header_str (to_name (args_example\<lparr>attachment := [''file.bin'']\<rparr>)),
       to_email (args_example\<lparr>attachment := [''file.bin'']\<rparr>)) = Inr ''b@x''"
    by (simp add: formataddr_def is_ascii_def args_example_def)
  have copies: "format_pairs (charset_header_encode world_ok)
      (zip (cc_email (args_example\<lparr>attachment := [''file.bin'']\<rparr>))
           (cc_name (args_example\<lparr>attachment := [''file.bin'']\<rparr>)))
      = Inr [[CHR 0x22] @ ''c@x'' @ [CHR 0x22] @ '' <C>'']"
    by (simp add: formataddr_def is_ascii_def specials_def escape_def args_example_def)
  have enc: "encodebytes [0x00, 0xFF, 0x10, 0x41] = ''AP8QQQ=='' @ [CHR 0x0A]"
    by code_simp
  from one_attachment [OF one readable sender recipient copies, of "''hello''"]
    one readable sender recipient copies enc
  show ?thesis
    by (simp add: args_example_def)
qed

end
